theory Spec2Isabelle
  imports Main "HOL-Library.Word"
begin

section \<open>The lattice node of the Smac planner: node\_lattice.hpp\<close>

text \<open>
  A shallow embedding of \<^verbatim>\<open>nav2_smac_planner/node_lattice.hpp\<close>: the struct
  \<^verbatim>\<open>LatticeMotionTable\<close> and the class \<^verbatim>\<open>NodeLattice\<close>. The header holds the
  bodies of the inline members; the members it only declares (\<^verbatim>\<open>reset\<close>,
  \<^verbatim>\<open>isNodeValid\<close>, \<^verbatim>\<open>getNeighbors\<close>, \<^verbatim>\<open>initMotionModel\<close>) and the companion
  class \<^verbatim>\<open>NodeHybrid\<close> live in other files.
\<close>

subsection \<open>Machine types\<close>

text \<open>
  \<^verbatim>\<open>unsigned int\<close> is a 32-bit word: \<open>+\<close> and \<open>*\<close> wrap around. A \<^verbatim>\<open>float\<close> is
  kept as its binary32 bit pattern: sign bit, eight exponent bits biased by 127 and
  23 fraction bits. The members modelled here store and copy floats; the only
  computations on them are the conversions between \<^verbatim>\<open>unsigned int\<close> and
  \<^verbatim>\<open>float\<close>.
\<close>

type_synonym uint = "32 word"

datatype float = Float32 (bits: "32 word")

text \<open>
  Integer division or remainder by zero is undefined behaviour in C++, and so is the
  conversion of a float to an \<^verbatim>\<open>unsigned int\<close> that cannot hold its truncated value.
\<close>

datatype fault = DivisionByZero | ConversionOutOfRange

subsection \<open>Conversions between unsigned int and float\<close>

text \<open>
  The number of binary digits of a positive integer; 0 for the others.
\<close>

function bit_length :: "int \<Rightarrow> nat" where
  "bit_length k = (if k \<le> 0 then 0 else Suc (bit_length (k div 2)))"
  by pat_completeness auto
termination
  by (relation "measure nat") auto

declare bit_length.simps [simp del]

text \<open>
  The conversion of an \<^verbatim>\<open>unsigned int\<close> to \<^verbatim>\<open>float\<close>, as where the constructor
  of \<^verbatim>\<open>Coordinates\<close> takes floats: the value itself when 24 significant bits hold
  it, and otherwise the nearest float, the one with the even significand in a tie
  (the default rounding of IEEE 754). With \<open>e\<close> the position of the leading bit,
  the significand is the leading 24 bits, rounded; a carry out of the rounding
  moves into the exponent field through the addition.
\<close>

definition binary32_of_int :: "int \<Rightarrow> int" where
  "binary32_of_int n =
     (if n \<le> 0 then 0
      else let e = bit_length n - 1 in
        if e \<le> 23 then (127 + int e) * 2 ^ 23 + (n * 2 ^ (23 - e) - 2 ^ 23)
        else let s = e - 23; q = n div 2 ^ s; r = n mod 2 ^ s; half = 2 ^ (s - 1);
                 q' = (if half < r \<or> (r = half \<and> odd q) then q + 1 else q)
             in (127 + int e) * 2 ^ 23 + (q' - 2 ^ 23))"

definition uint_to_float :: "uint \<Rightarrow> float" where
  "uint_to_float u = Float32 (word_of_int (binary32_of_int (uint u)))"

text \<open>
  The conversion of a \<^verbatim>\<open>float\<close> to \<^verbatim>\<open>unsigned int\<close>, as where a coordinate is
  passed to \<^verbatim>\<open>getIndex\<close>: the value truncated towards zero. It is undefined for
  a NaN, an infinity, a value of \<open>2 ^ 32\<close> or more, and a negative value of
  magnitude 1 or more.
\<close>

definition float_to_uint :: "float \<Rightarrow> fault + uint" where
  "float_to_uint f =
     (let b = uint (bits f); sign = b div 2 ^ 31; E = nat ((b div 2 ^ 23) mod 256);
          m = b mod 2 ^ 23
      in if E < 127 then Inr 0
         else if sign = 1 \<or> 159 \<le> E then Inl ConversionOutOfRange
         else if 150 \<le> E then Inr (word_of_int ((2 ^ 23 + m) * 2 ^ (E - 150)))
         else Inr (word_of_int ((2 ^ 23 + m) div 2 ^ (150 - E))))"

subsection \<open>Coordinates\<close>

text \<open>
  \<^verbatim>\<open>NodeHybrid::Coordinates\<close> is declared in node\_hybrid.hpp, outside this header: a
  triple x, y, theta of floats, built by a constructor of three floats. The component
  type is the parameter of the record; the pose of a node and the result of
  \<^verbatim>\<open>getCoords\<close> are both \<open>float Coordinates\<close>.
\<close>

record 'a Coordinates =
  coord_x :: 'a
  coord_y :: 'a
  coord_theta :: 'a

subsection \<open>LatticeMotionTable\<close>

text \<open>
  The element types \<^verbatim>\<open>MotionPose\<close> and \<^verbatim>\<open>TrigValues\<close> come from types.hpp: a
  motion pose is a triple of floats (x, y, theta) and \<^verbatim>\<open>TrigValues\<close> a pair of
  floats (sine, cosine). The state-space handle is a shared pointer, \<open>None\<close> when null,
  to a curvature-aware state space built from a turning radius.
\<close>

record MotionPose =
  pose_x :: float
  pose_y :: float
  pose_theta :: float

type_synonym MotionPoses = "MotionPose list"

type_synonym TrigValues = "float \<times> float"

datatype StateSpace = StateSpace (turning_radius: float)

type_synonym StateSpacePtr = "StateSpace option"

record LatticeMotionTable =
  projections :: MotionPoses
  size_x :: uint
  num_angle_quantization :: uint
  num_angle_quantization_float :: float
  min_turning_radius :: float
  bin_size :: float
  change_penalty :: float
  non_straight_penalty :: float
  cost_penalty :: float
  reverse_penalty :: float
  obstacle_heuristic_cost_weight :: float
  state_space :: StateSpacePtr
  trig_values :: "TrigValues list"
  current_lattice_filepath :: string

subsection \<open>Coordinate mapping\<close>

text \<open>
  \<^verbatim>\<open>NodeLattice::getIndex(x, y, angle)\<close> passes its arguments, the width and the
  number of angle bins of the static motion table to \<^verbatim>\<open>NodeHybrid::getIndex\<close>. The
  callee is the first argument of the model, the static table the second.
\<close>

definition getIndex ::
  "(uint \<Rightarrow> uint \<Rightarrow> uint \<Rightarrow> uint \<Rightarrow> uint \<Rightarrow> uint) \<Rightarrow> LatticeMotionTable
     \<Rightarrow> uint \<Rightarrow> uint \<Rightarrow> uint \<Rightarrow> uint" where
  "getIndex NodeHybrid_getIndex motion_table x y angle =
     NodeHybrid_getIndex x y angle (size_x motion_table) (num_angle_quantization motion_table)"

text \<open>
  Modelled from the spec: \<^verbatim>\<open>NodeHybrid::getIndex\<close> with five arguments, whose body
  is in node\_hybrid.hpp. The spec gives
  \<^verbatim>\<open>index = (y*width + x) * angleBinCount + angleBin\<close>; the arithmetic is that of
  \<^verbatim>\<open>unsigned int\<close>.
\<close>

definition NodeHybrid_getIndex :: "uint \<Rightarrow> uint \<Rightarrow> uint \<Rightarrow> uint \<Rightarrow> uint \<Rightarrow> uint" where
  "NodeHybrid_getIndex x y angle width angle_quantization =
     (y * width + x) * angle_quantization + angle"

text \<open>
  \<^verbatim>\<open>NodeLattice::getCoords\<close>. The three divisors are \<^verbatim>\<open>angle_quantization\<close>,
  \<^verbatim>\<open>width\<close> and the wrapped product \<^verbatim>\<open>angle_quantization * width\<close>; the source
  checks none of them, and the index is not compared with anything. The three
  results of the \<^verbatim>\<open>unsigned int\<close> arithmetic are converted to floats as they are
  passed to the constructor of \<^verbatim>\<open>Coordinates\<close>.
\<close>

definition getCoords :: "uint \<Rightarrow> uint \<Rightarrow> uint \<Rightarrow> fault + float Coordinates" where
  "getCoords index width angle_quantization =
     (if angle_quantization = 0 \<or> width = 0 \<or> angle_quantization * width = 0
      then Inl DivisionByZero
      else Inr \<lparr>coord_x = uint_to_float ((index div angle_quantization) mod width),
                coord_y = uint_to_float (index div (angle_quantization * width)),
                coord_theta = uint_to_float (index mod angle_quantization)\<rparr>)"

text \<open>A motion table of a given width and number of angle bins, all else empty.\<close>

definition sized_table :: "uint \<Rightarrow> uint \<Rightarrow> LatticeMotionTable" where
  "sized_table width bins =
     \<lparr>projections = [], size_x = width, num_angle_quantization = bins,
      num_angle_quantization_float = Float32 0, min_turning_radius = Float32 0,
      bin_size = Float32 0, change_penalty = Float32 0, non_straight_penalty = Float32 0,
      cost_penalty = Float32 0, reverse_penalty = Float32 0,
      obstacle_heuristic_cost_weight = Float32 0, state_space = None, trig_values = [],
      current_lattice_filepath = []\<rparr>"

subsection \<open>Heuristics shared with NodeHybrid\<close>

text \<open>
  The three static heuristic members forward every argument to the member of
  \<^verbatim>\<open>NodeHybrid\<close> of the same name. The callee is the first argument of each model;
  \<open>'h\<close> is the static state of \<^verbatim>\<open>NodeHybrid\<close> that the callee reads and writes (its
  lookup tables), \<open>'m\<close> the enum \<^verbatim>\<open>MotionModel\<close>, \<open>'s\<close> the struct \<^verbatim>\<open>SearchInfo\<close>
  and \<open>'c\<close> the costmap, all declared outside this header.
\<close>

definition precomputeDistanceHeuristic ::
  "(float \<Rightarrow> 'm \<Rightarrow> uint \<Rightarrow> 's \<Rightarrow> 'h \<Rightarrow> 'h) \<Rightarrow> float \<Rightarrow> 'm \<Rightarrow> uint \<Rightarrow> 's \<Rightarrow> 'h \<Rightarrow> 'h" where
  "precomputeDistanceHeuristic NodeHybrid_precomputeDistanceHeuristic
       lookup_table_dim motion_model dim_3_size search_info h =
     NodeHybrid_precomputeDistanceHeuristic lookup_table_dim motion_model dim_3_size search_info h"

definition resetObstacleHeuristic ::
  "('c \<Rightarrow> uint \<Rightarrow> uint \<Rightarrow> 'h \<Rightarrow> 'h) \<Rightarrow> 'c \<Rightarrow> uint \<Rightarrow> uint \<Rightarrow> 'h \<Rightarrow> 'h" where
  "resetObstacleHeuristic NodeHybrid_resetObstacleHeuristic costmap goal_x goal_y h =
     NodeHybrid_resetObstacleHeuristic costmap goal_x goal_y h"

definition getObstacleHeuristic ::
  "('c \<Rightarrow> float Coordinates \<Rightarrow> float Coordinates \<Rightarrow> 'h \<Rightarrow> float \<times> 'h)
     \<Rightarrow> 'c \<Rightarrow> float Coordinates \<Rightarrow> float Coordinates \<Rightarrow> 'h \<Rightarrow> float \<times> 'h" where
  "getObstacleHeuristic NodeHybrid_getObstacleHeuristic costmap node_coords goal_coords h =
     NodeHybrid_getObstacleHeuristic costmap node_coords goal_coords h"

subsection \<open>NodeLattice\<close>

text \<open>
  A \<^verbatim>\<open>NodeLattice *\<close> is an address, \<open>None\<close> for \<^verbatim>\<open>nullptr\<close>. The private
  members lose their leading underscore; \<^verbatim>\<open>_index\<close> is \<open>node_index\<close>. The
  getters (\<^verbatim>\<open>wasVisited\<close>, \<^verbatim>\<open>isQueued\<close>, \<^verbatim>\<open>getAccumulatedCost\<close>, ...) return
  the member; the selectors of the record stand for them.
\<close>

type_synonym NodePtr = "nat option"

record NodeLattice =
  parent :: NodePtr
  pose :: "float Coordinates"
  cell_cost :: float
  accumulated_cost :: float
  node_index :: uint
  was_visited :: bool
  is_queued :: bool
  motion_primitive_index :: uint

definition setPose :: "float Coordinates \<Rightarrow> NodeLattice \<Rightarrow> NodeLattice" where
  "setPose pose_in n = n\<lparr>pose := pose_in\<rparr>"

definition setMotionPrimitiveIndex :: "uint \<Rightarrow> NodeLattice \<Rightarrow> NodeLattice" where
  "setMotionPrimitiveIndex idx n = n\<lparr>motion_primitive_index := idx\<rparr>"

definition setAccumulatedCost :: "float \<Rightarrow> NodeLattice \<Rightarrow> NodeLattice" where
  "setAccumulatedCost cost_in n = n\<lparr>accumulated_cost := cost_in\<rparr>"

definition visited :: "NodeLattice \<Rightarrow> NodeLattice" where
  "visited n = n\<lparr>was_visited := True, is_queued := False\<rparr>"

definition queued :: "NodeLattice \<Rightarrow> NodeLattice" where
  "queued n = n\<lparr>is_queued := True\<rparr>"

text \<open>
  Modelled from the spec: \<^verbatim>\<open>NodeLattice::reset\<close>, which the header declares and
  node\_lattice.cpp defines. The spec: it clears accumulated cost, visited flag, queued
  flag, parent and motion-primitive index. The two flags become false and the parent
  null; the header stores the cost in a float and the primitive index in an unsigned
  int, and the spec leaves open which values stand for cleared there, so both are
  arguments.
\<close>

definition reset :: "float \<Rightarrow> uint \<Rightarrow> NodeLattice \<Rightarrow> NodeLattice" where
  "reset cleared_cost cleared_primitive n =
     n\<lparr>parent := None, accumulated_cost := cleared_cost, was_visited := False,
       is_queued := False, motion_primitive_index := cleared_primitive\<rparr>"

subsection \<open>The calls of one search episode\<close>

text \<open>
  Between two calls of \<^verbatim>\<open>reset\<close> the search loop calls \<^verbatim>\<open>queued()\<close> and
  \<^verbatim>\<open>visited()\<close> on a node, in any order and number. The phase of a node is read
  from its two flags, the visited flag first.
\<close>

datatype node_call = CallQueued | CallVisited

fun call :: "node_call \<Rightarrow> NodeLattice \<Rightarrow> NodeLattice" where
  "call CallQueued n = queued n"
| "call CallVisited n = visited n"

fun calls :: "node_call list \<Rightarrow> NodeLattice \<Rightarrow> NodeLattice" where
  "calls [] n = n"
| "calls (c # cs) n = calls cs (call c n)"

datatype phase = Unvisited | Queued | Visited

definition node_phase :: "NodeLattice \<Rightarrow> phase" where
  "node_phase n = (if was_visited n then Visited else if is_queued n then Queued else Unvisited)"

fun phase_rank :: "phase \<Rightarrow> nat" where
  "phase_rank Unvisited = 0"
| "phase_rank Queued = 1"
| "phase_rank Visited = 2"

text \<open>An example node with a given index: no parent, both flags false.\<close>

definition fresh_node :: "uint \<Rightarrow> NodeLattice" where
  "fresh_node i =
     \<lparr>parent = None,
      pose = \<lparr>coord_x = Float32 0, coord_y = Float32 0, coord_theta = Float32 0\<rparr>,
      cell_cost = Float32 0, accumulated_cost = Float32 0, node_index = i,
      was_visited = False, is_queued = False, motion_primitive_index = 0\<rparr>"

subsection \<open>Validity and expansion\<close>

text \<open>
  The collision checker is an external capability (collision\_checker.hpp). The spec
  gives it one operation, \<^verbatim>\<open>isValid(pose, headingBin, traverseUnknown)\<close>, and a
  read-only accessor of the cost of a cell.
\<close>

record GridCollisionChecker =
  isValid :: "float \<Rightarrow> float \<Rightarrow> float \<Rightarrow> bool \<Rightarrow> bool"
  cost_at :: "float \<Rightarrow> float \<Rightarrow> float"

text \<open>
  Modelled from the spec: \<^verbatim>\<open>NodeLattice::isNodeValid\<close>, which the header declares
  and node\_lattice.cpp defines. The spec: it delegates to the collision checker with
  the node's continuous pose and heading bin, returns false on collision or on an
  unknown cell when \<^verbatim>\<open>traverseUnknown\<close> is false, and may cache the cell's costmap
  cost as a side effect. The result is the boolean and the node after the call.
\<close>

definition isNodeValid :: "bool \<Rightarrow> GridCollisionChecker \<Rightarrow> NodeLattice \<Rightarrow> bool \<times> NodeLattice" where
  "isNodeValid traverse_unknown collision_checker n =
     (let p = pose n in
      if isValid collision_checker (coord_x p) (coord_y p) (coord_theta p) traverse_unknown
      then (True, n\<lparr>cell_cost := cost_at collision_checker (coord_x p) (coord_y p)\<rparr>)
      else (False, n))"

text \<open>
  The steps of an expansion that the spec names and does not define, all of them
  float computations of node\_lattice.cpp: the projections of the table for the
  heading bin of a node (\<^verbatim>\<open>getProjections\<close>), the absolute coordinate of the successor
  of a node along a motion pose, the bounds check against the grid, and the index of
  the cell of a coordinate.
\<close>

record Expansion =
  getProjections :: "NodeLattice \<Rightarrow> MotionPoses"
  successor :: "NodeLattice \<Rightarrow> MotionPose \<Rightarrow> float Coordinates"
  in_bounds :: "float Coordinates \<Rightarrow> bool"
  cell_index :: "float Coordinates \<Rightarrow> uint"

text \<open>
  Modelled from the spec: \<^verbatim>\<open>NodeLattice::getNeighbors\<close>, which the header declares
  and node\_lattice.cpp defines. The spec: for each motion pose from
  \<^verbatim>\<open>getProjections(this)\<close> it computes the absolute successor coordinate,
  bounds-checks it against the grid, applies the externally supplied validity
  predicate and \<^verbatim>\<open>isNodeValid\<close>, and appends the surviving candidates in the fixed
  primitive order, each carrying pose and primitive index.

  The validity checker of the header,
  \<^verbatim>\<open>std::function<bool(const unsigned int &, NodeLattice * &)>\<close>, answers for an index
  with a boolean and a node: \<open>Some\<close> of the node when true. \<open>candidate\<close> is the body
  of the loop for one primitive, \<open>expand\<close> the loop, \<open>neighbors\<close> the output vector.
  A neighbor is the node as it is when appended.
\<close>

definition candidate ::
  "Expansion \<Rightarrow> (uint \<Rightarrow> NodeLattice option) \<Rightarrow> GridCollisionChecker \<Rightarrow> bool \<Rightarrow> NodeLattice
     \<Rightarrow> uint \<times> MotionPose \<Rightarrow> NodeLattice option" where
  "candidate E validity_checker collision_checker traverse_unknown n im =
     (let c = successor E n (snd im) in
      if \<not> in_bounds E c then None
      else case validity_checker (cell_index E c) of
             None \<Rightarrow> None
           | Some neighbor \<Rightarrow>
               (case isNodeValid traverse_unknown collision_checker (setPose c neighbor) of
                  (True, neighbor') \<Rightarrow> Some (setMotionPrimitiveIndex (fst im) neighbor')
                | (False, _) \<Rightarrow> None))"

fun expand ::
  "Expansion \<Rightarrow> (uint \<Rightarrow> NodeLattice option) \<Rightarrow> GridCollisionChecker \<Rightarrow> bool \<Rightarrow> NodeLattice
     \<Rightarrow> (uint \<times> MotionPose) list \<Rightarrow> NodeLattice list \<Rightarrow> NodeLattice list" where
  "expand E validity_checker collision_checker traverse_unknown n [] neighbors = neighbors"
| "expand E validity_checker collision_checker traverse_unknown n (im # rest) neighbors =
     (case candidate E validity_checker collision_checker traverse_unknown n im of
        None \<Rightarrow> expand E validity_checker collision_checker traverse_unknown n rest neighbors
      | Some neighbor \<Rightarrow>
          expand E validity_checker collision_checker traverse_unknown n rest
            (neighbors @ [neighbor]))"

definition getNeighbors ::
  "Expansion \<Rightarrow> (uint \<Rightarrow> NodeLattice option) \<Rightarrow> GridCollisionChecker \<Rightarrow> bool \<Rightarrow> NodeLattice
     \<Rightarrow> NodeLattice list \<Rightarrow> NodeLattice list" where
  "getNeighbors E validity_checker collision_checker traverse_unknown n neighbors =
     (let motion_projections = getProjections E n in
      expand E validity_checker collision_checker traverse_unknown n
        (zip (map of_nat [0 ..< length motion_projections]) motion_projections) neighbors)"

subsection \<open>Loading the motion table\<close>

text \<open>
  Modelled from the spec: the primitive file and the search configuration. The file
  has a header (angular-bin count, minimum turning radius, bin size) and a body (the
  primitive pose sequences of each bin). The configuration (\<^verbatim>\<open>SearchInfo\<close> of
  types.hpp) carries the penalty weights and the path of the primitive file.
\<close>

record LatticeFile =
  file_num_angle_quantization :: uint
  file_min_turning_radius :: float
  file_bin_size :: float
  file_primitives :: "MotionPoses list"

record SearchInfo =
  info_change_penalty :: float
  info_non_straight_penalty :: float
  info_cost_penalty :: float
  info_reverse_penalty :: float
  info_obstacle_heuristic_cost_weight :: float
  lattice_filepath :: string

datatype error = ParseError

text \<open>
  What loading takes from outside: the file system with the parser (\<open>Inl ParseError\<close>
  for a path with no file or with a structurally invalid one), and the float
  computations, which the spec names and does not define: the real form of the bin
  count, the state space for a turning radius, the trig cache of all bins and the
  projections of the primitives.
\<close>

record Loader =
  read_lattice_file :: "string \<Rightarrow> error + LatticeFile"
  to_float :: "uint \<Rightarrow> float"
  make_state_space :: "float \<Rightarrow> StateSpace"
  make_trig_values :: "LatticeFile \<Rightarrow> TrigValues list"
  make_projections :: "LatticeFile \<Rightarrow> MotionPoses"

text \<open>
  Modelled from the spec: \<^verbatim>\<open>LatticeMotionTable::initMotionModel\<close>, which the header
  declares and node\_lattice.cpp defines. The spec: if the configured primitive-file
  path and grid size match the currently loaded state, this is a no-op. Otherwise it
  parses the primitive file fully, derives angular-bin count, minimum turning radius
  and bin size from its metadata, copies the penalty weights from the configuration,
  constructs the state-space handle for the minimum turning radius, builds the trig
  cache and the projections table. It fails with a ParseError if the file is missing
  or structurally invalid; on failure no partial table state is committed. The result
  is the error, if any, and the table after the call.
\<close>

definition initMotionModel ::
  "Loader \<Rightarrow> uint \<Rightarrow> SearchInfo \<Rightarrow> LatticeMotionTable \<Rightarrow> error option \<times> LatticeMotionTable" where
  "initMotionModel L size_x_in search_info t =
     (if lattice_filepath search_info = current_lattice_filepath t \<and> size_x_in = size_x t
      then (None, t)
      else case read_lattice_file L (lattice_filepath search_info) of
             Inl e \<Rightarrow> (Some e, t)
           | Inr f \<Rightarrow>
               (None,
                \<lparr>projections = make_projections L f,
                 size_x = size_x_in,
                 num_angle_quantization = file_num_angle_quantization f,
                 num_angle_quantization_float = to_float L (file_num_angle_quantization f),
                 min_turning_radius = file_min_turning_radius f,
                 bin_size = file_bin_size f,
                 change_penalty = info_change_penalty search_info,
                 non_straight_penalty = info_non_straight_penalty search_info,
                 cost_penalty = info_cost_penalty search_info,
                 reverse_penalty = info_reverse_penalty search_info,
                 obstacle_heuristic_cost_weight = info_obstacle_heuristic_cost_weight search_info,
                 state_space = Some (make_state_space L (file_min_turning_radius f)),
                 trig_values = make_trig_values L f,
                 current_lattice_filepath = lattice_filepath search_info\<rparr>))"

subsection \<open>Example inputs\<close>

text \<open>
  Two motion poses, of which the collision checker accepts the one whose x has the
  bit pattern 1; every coordinate is in bounds and the validity checker answers with
  a fresh node for every index.
\<close>

definition example_poses :: MotionPoses where
  "example_poses =
     [\<lparr>pose_x = Float32 1, pose_y = Float32 2, pose_theta = Float32 0\<rparr>,
      \<lparr>pose_x = Float32 3, pose_y = Float32 2, pose_theta = Float32 0\<rparr>]"

definition example_expansion :: Expansion where
  "example_expansion =
     \<lparr>getProjections = (\<lambda>n. example_poses),
      successor = (\<lambda>n mp. \<lparr>coord_x = pose_x mp, coord_y = pose_y mp,
                             coord_theta = pose_theta mp\<rparr>),
      in_bounds = (\<lambda>c. True),
      cell_index = (\<lambda>c. bits (coord_x c))\<rparr>"

definition example_checker :: GridCollisionChecker where
  "example_checker =
     \<lparr>isValid = (\<lambda>x y t traverse_unknown. x = Float32 1), cost_at = (\<lambda>x y. Float32 7)\<rparr>"

definition example_validity :: "uint \<Rightarrow> NodeLattice option" where
  "example_validity i = Some (fresh_node i)"

text \<open>
  A file system with one well-formed primitive file, of 16 bins, and two
  configurations: one names that file, the other a path with no file.
\<close>

definition example_file :: LatticeFile where
  "example_file =
     \<lparr>file_num_angle_quantization = 16, file_min_turning_radius = Float32 8,
      file_bin_size = Float32 9, file_primitives = [example_poses]\<rparr>"

definition example_loader :: Loader where
  "example_loader =
     \<lparr>read_lattice_file = (\<lambda>path. if path = ''lattice.json'' then Inr example_file
                                   else Inl ParseError),
      to_float = Float32,
      make_state_space = StateSpace,
      make_trig_values = (\<lambda>f. [(Float32 0, Float32 1)]),
      make_projections = (\<lambda>f. concat (file_primitives f))\<rparr>"

definition example_info :: "string \<Rightarrow> SearchInfo" where
  "example_info path =
     \<lparr>info_change_penalty = Float32 1, info_non_straight_penalty = Float32 2,
      info_cost_penalty = Float32 3, info_reverse_penalty = Float32 4,
      info_obstacle_heuristic_cost_weight = Float32 5, lattice_filepath = path\<rparr>"

section \<open>Conversions: exact below \<open>2 ^ 24\<close>\<close>

lemma bit_length_bounds:
  "0 < n \<Longrightarrow> 2 ^ (bit_length n - 1) \<le> n \<and> n < 2 ^ bit_length n"
proof (induction n rule: bit_length.induct)
  case (1 n)
  from "1.prems" have nle: "\<not> n \<le> 0" by simp
  have bl: "bit_length n = Suc (bit_length (n div 2))"
    using nle by (subst bit_length.simps) simp
  show ?case
  proof (cases "n div 2 \<le> 0")
    case True
    with "1.prems" have "n = 1" by arith
    then show ?thesis by (simp add: bit_length.simps)
  next
    case False
    then have pos: "0 < n div 2" by simp
    have ih: "2 ^ (bit_length (n div 2) - 1) \<le> n div 2 \<and> n div 2 < 2 ^ bit_length (n div 2)"
      using "1.IH" [OF nle pos] .
    have "bit_length (n div 2) = Suc (bit_length (n div 2 div 2))"
      using False by (subst bit_length.simps) simp
    then have e: "(2::int) ^ (bit_length n - 1) = 2 * 2 ^ (bit_length (n div 2) - 1)"
      by (simp add: bl)
    have "2 * (2::int) ^ (bit_length (n div 2) - 1) \<le> 2 * (n div 2)" using ih by simp
    also have "\<dots> \<le> n" by arith
    finally have lo: "2 ^ (bit_length n - 1) \<le> n" by (simp only: e)
    have "n < 2 * (n div 2) + 2" by arith
    also have "\<dots> \<le> 2 * 2 ^ bit_length (n div 2)" using ih by simp
    finally have hi: "n < 2 ^ bit_length n" by (simp add: bl)
    from lo hi show ?thesis ..
  qed
qed

lemma binary32_of_small:
  assumes pos: "0 < n" and small: "n < 2 ^ 24"
  shows "\<exists>e. e \<le> 23 \<and> 2 ^ e \<le> n \<and> n < 2 * 2 ^ e
           \<and> binary32_of_int n = (127 + int e) * 2 ^ 23 + (n * 2 ^ (23 - e) - 2 ^ 23)"
proof -
  let ?e = "bit_length n - 1"
  from bit_length_bounds [OF pos] have lo: "2 ^ ?e \<le> n" and hi: "n < 2 ^ bit_length n"
    by simp_all
  have blpos: "0 < bit_length n" using pos by (subst bit_length.simps) simp
  then have "bit_length n = Suc ?e" by simp
  then have hi': "n < 2 * 2 ^ ?e" using hi by (metis power_Suc)
  have "(2::int) ^ ?e < 2 ^ 24" using lo small by simp
  then have "?e < 24" by (rule power_less_imp_less_exp [rotated]) simp
  then have e: "?e \<le> 23" by simp
  have "binary32_of_int n = (127 + int ?e) * 2 ^ 23 + (n * 2 ^ (23 - ?e) - 2 ^ 23)"
    using pos e by (simp add: binary32_of_int_def Let_def)
  with e lo hi' show ?thesis by blast
qed

lemma div_mod_split:
  fixes a m k :: int
  assumes "0 \<le> m" "m < k"
  shows "(a * k + m) div k = a" and "(a * k + m) mod k = m"
  using assms by simp_all

lemma uint_word_of_int_small:
  fixes k :: int
  assumes "0 \<le> k" "k < 2 ^ 32"
  shows "uint (word_of_int k :: 32 word) = k"
  using assms by (simp add: uint_word_of_int)

lemma decode_fields:
  fixes w :: "32 word"
  assumes "uint w div 2 ^ 31 = 0"
    and "nat ((uint w div 2 ^ 23) mod 256) = 127 + e"
    and "uint w mod 2 ^ 23 = m"
    and "e \<le> 23"
  shows "float_to_uint (Float32 w) = Inr (word_of_int ((2 ^ 23 + m) div 2 ^ (23 - e)))"
proof (cases "e = 23")
  case True
  then show ?thesis using assms(1-3) by (simp add: float_to_uint_def Let_def)
next
  case False
  with assms(4) have "e < 23" by simp
  then have "150 - (127 + e) = 23 - e" "\<not> 150 \<le> 127 + e" "\<not> 159 \<le> 127 + e"
    "\<not> 127 + e < 127"
    by simp_all
  then show ?thesis using assms(1-3) by (simp add: float_to_uint_def Let_def)
qed

lemma decode_normalised:
  fixes n :: int
  assumes e: "e \<le> 23" and lo: "2 ^ e \<le> n" and hi: "n < 2 * 2 ^ e"
  shows "float_to_uint (Float32 (word_of_int ((127 + int e) * 2 ^ 23 + (n * 2 ^ (23 - e) - 2 ^ 23))))
           = Inr (word_of_int n)"
proof -
  let ?t = "23 - e"
  let ?sig = "n * 2 ^ ?t"
  let ?m = "?sig - 2 ^ 23"
  let ?b = "(127 + int e) * 2 ^ 23 + ?m"
  have p: "(2::int) ^ e * 2 ^ ?t = 2 ^ 23" using e by (simp flip: power_add)
  have "2 ^ e * 2 ^ ?t \<le> ?sig" using lo by (intro mult_right_mono) simp_all
  then have siglo: "2 ^ 23 \<le> ?sig" by (simp only: p)
  have "?sig < (2 * 2 ^ e) * 2 ^ ?t" using hi by (intro mult_strict_right_mono) simp_all
  also have "\<dots> = 2 * (2 ^ e * 2 ^ ?t)" by simp
  finally have sighi: "?sig < 2 ^ 24" by (simp only: p) simp
  have m: "0 \<le> ?m" "?m < 2 ^ 23" using siglo sighi by simp_all
  have d: "?b div 2 ^ 23 = 127 + int e" using m by (rule div_mod_split(1))
  have r: "?b mod 2 ^ 23 = ?m" using m by (rule div_mod_split(2))
  have "(127 + int e) * 2 ^ 23 \<le> 150 * 2 ^ 23" using e by simp
  then have bhi: "?b < 2 ^ 31" using m by simp
  have blo: "0 \<le> ?b" using m by simp
  have "?b < 2 ^ 32" using bhi by simp
  with blo have u: "uint (word_of_int ?b :: 32 word) = ?b" by (rule uint_word_of_int_small)
  have s: "?b div 2 ^ 31 = 0" using blo bhi by (rule div_pos_pos_trivial)
  have E: "nat ((?b div 2 ^ 23) mod 256) = 127 + e" using e by (simp only: d) simp
  have inv: "(2 ^ 23 + ?m) div 2 ^ ?t = n" by simp
  have f1: "uint (word_of_int ?b :: 32 word) div 2 ^ 31 = 0" by (simp only: u s)
  have f2: "nat ((uint (word_of_int ?b :: 32 word) div 2 ^ 23) mod 256) = 127 + e"
    by (simp only: u E)
  have f3: "uint (word_of_int ?b :: 32 word) mod 2 ^ 23 = ?m" by (simp only: u r)
  have "float_to_uint (Float32 (word_of_int ?b))
      = Inr (word_of_int ((2 ^ 23 + ?m) div 2 ^ ?t))"
    using f1 f2 f3 e by (rule decode_fields)
  then show ?thesis by (simp only: inv)
qed

lemma float_to_uint_exact:
  fixes u :: uint
  assumes "unat u < 2 ^ 24"
  shows "float_to_uint (uint_to_float u) = Inr u"
proof (cases "u = 0")
  case True
  have "binary32_of_int 0 = 0" by (simp add: binary32_of_int_def)
  then have "uint_to_float 0 = Float32 0" by (simp add: uint_to_float_def)
  moreover have "float_to_uint (Float32 0) = Inr 0" by (simp add: float_to_uint_def)
  ultimately show ?thesis using True by simp
next
  case False
  then have "uint u \<noteq> 0" by (simp add: uint_0_iff)
  moreover have "0 \<le> uint u" by (rule uint_nonnegative)
  ultimately have pos: "0 < uint u" by linarith
  have "int (unat u) < int (2 ^ 24)" using assms by (simp only: of_nat_less_iff)
  then have small: "uint u < 2 ^ 24" by (simp only: uint_nat) simp
  from binary32_of_small [OF pos small] obtain e where
    e: "e \<le> 23" and lo: "2 ^ e \<le> uint u" and hi: "uint u < 2 * 2 ^ e"
    and b: "binary32_of_int (uint u)
        = (127 + int e) * 2 ^ 23 + (uint u * 2 ^ (23 - e) - 2 ^ 23)"
    by blast
  have "float_to_uint (uint_to_float u)
      = float_to_uint (Float32 (word_of_int
          ((127 + int e) * 2 ^ 23 + (uint u * 2 ^ (23 - e) - 2 ^ 23))))"
    by (simp only: uint_to_float_def b)
  also have "\<dots> = Inr (word_of_int (uint u))" using e lo hi by (rule decode_normalised)
  also have "word_of_int (uint u) = u" by (rule word_of_int_uint)
  finally show ?thesis .
qed

text \<open>
  The conversions at some integers: exact ones, a tie rounded down to the even
  significand (\<open>2 ^ 24 + 1\<close>), a tie rounded up to it (\<open>2 ^ 24 + 3\<close>), a rounding
  to the nearest float (357913941 to 357913952), a rounding that carries into the
  exponent (\<open>2 ^ 32 - 1\<close> to \<open>2 ^ 32\<close>, which no \<^verbatim>\<open>unsigned int\<close> holds), the
  truncation of 1.5 and the conversion of -1.0.
\<close>

lemma conversion_examples:
  "uint_to_float 0 = Float32 0"
  "uint_to_float 1 = Float32 0x3F800000"
  "uint_to_float 16777216 = Float32 0x4B800000"
  "uint_to_float 16777217 = Float32 0x4B800000"
  "uint_to_float 16777219 = Float32 0x4B800002"
  "uint_to_float 357913941 = Float32 0x4DAAAAAB"
  "uint_to_float 4294967295 = Float32 0x4F800000"
  "float_to_uint (Float32 0x4B800002) = Inr 16777220"
  "float_to_uint (Float32 0x4DAAAAAB) = Inr 357913952"
  "float_to_uint (Float32 0x4F800000) = Inl ConversionOutOfRange"
  "float_to_uint (Float32 0x3FC00000) = Inr 1"
  "float_to_uint (Float32 0xBF800000) = Inl ConversionOutOfRange"
  by (simp_all add: uint_to_float_def binary32_of_int_def bit_length.simps float_to_uint_def
        Let_def)

section \<open>Coordinate mapping: round trip and range\<close>

lemma unat_prod_fits:
  fixes W A :: uint
  assumes "unat A * unat W < 2 ^ 32"
  shows "unat (A * W) = unat A * unat W"
  using assms unat_mult_lem [of A W] by simp

lemma cell_index_bound:
  fixes x y a W H A :: nat
  assumes "x < W" "y < H" "a < A"
  shows "(y * W + x) * A + a < W * H * A"
proof -
  have "y * W + x + 1 \<le> (y + 1) * W" using assms(1) by simp
  also have "\<dots> \<le> H * W" using assms(2) by (intro mult_le_mono1) simp
  finally have cell: "y * W + x + 1 \<le> H * W" .
  have "(y * W + x) * A + a < (y * W + x + 1) * A" using assms(3) by simp
  also have "\<dots> \<le> (H * W) * A" using cell by (rule mult_le_mono1)
  finally show ?thesis by (simp add: mult.commute)
qed

lemma unat_index:
  fixes x y a W A :: uint
  assumes "(unat y * unat W + unat x) * unat A + unat a < 2 ^ 32"
  shows "unat ((y * W + x) * A + a) = (unat y * unat W + unat x) * unat A + unat a"
proof -
  have eq: "of_nat ((unat y * unat W + unat x) * unat A + unat a) = (y * W + x) * A + a"
    by simp
  have lt: "(unat y * unat W + unat x) * unat A + unat a < 2 ^ LENGTH(32)"
    using assms by simp
  show ?thesis using eq lt by (rule of_nat_inverse)
qed

lemma index_decompose:
  fixes x y a W A :: nat
  assumes "x < W" "a < A"
  shows "((y * W + x) * A + a) div A mod W = x"
    and "((y * W + x) * A + a) div (A * W) = y"
    and "((y * W + x) * A + a) mod A = a"
proof -
  have d: "((y * W + x) * A + a) div A = y * W + x" using assms(2) by simp
  show "((y * W + x) * A + a) div A mod W = x" using assms(1) by (simp add: d)
  show "((y * W + x) * A + a) div (A * W) = y"
    using assms(1) by (simp add: div_mult2_eq d)
  show "((y * W + x) * A + a) mod A = a" using assms(2) by simp
qed

lemma getCoords_of_index:
  fixes i W A :: uint
  assumes pos: "0 < unat A * unat W" and fits: "unat A * unat W < 2 ^ 32"
  shows "getCoords i W A
      = Inr \<lparr>coord_x = uint_to_float ((i div A) mod W),
             coord_y = uint_to_float (i div (A * W)),
             coord_theta = uint_to_float (i mod A)\<rparr>"
    and "((i div (A * W)) * W + (i div A) mod W) * A + i mod A = i"
proof -
  have AW: "unat (A * W) = unat A * unat W" using fits by (rule unat_prod_fits)
  have nz: "A \<noteq> 0" "W \<noteq> 0" "A * W \<noteq> 0"
    using pos AW by (auto simp flip: unat_gt_0)
  show "getCoords i W A
      = Inr \<lparr>coord_x = uint_to_float ((i div A) mod W),
             coord_y = uint_to_float (i div (A * W)),
             coord_theta = uint_to_float (i mod A)\<rparr>"
    using nz by (simp add: getCoords_def)
  have "i div (A * W) = (i div A) div W"
    by (rule word_unat_eq_iff [THEN iffD2]) (simp add: unat_div AW div_mult2_eq)
  then have "(i div (A * W)) * W + (i div A) mod W = i div A"
    by (simp add: div_mult_mod_eq)
  then show "((i div (A * W)) * W + (i div A) mod W) * A + i mod A = i"
    by (simp add: div_mult_mod_eq)
qed

lemma exact_below:
  fixes u bound :: uint
  assumes "unat u < unat bound" "unat bound \<le> 2 ^ 24"
  shows "float_to_uint (uint_to_float u) = Inr u"
proof -
  from assms have "unat u < 2 ^ 24" by simp
  then show ?thesis by (rule float_to_uint_exact)
qed

text \<open>
  Claim C1, as amended. Let the static table hold the width \<open>W\<close> and the number
  of angle bins \<open>A\<close>; let \<open>W\<close>, the height \<open>H\<close> and \<open>A\<close> be at most \<open>2 ^ 24\<close>,
  so that every coordinate within the extents is a float exactly; let the product
  \<open>A * W\<close> be below \<open>2 ^ 32\<close> and the grid size \<open>W * H * A\<close> at most \<open>2 ^ 32\<close>, so
  that the divisor of \<^verbatim>\<open>getCoords\<close> and the index of every cell are computed
  without wrap-around. Then for every index \<open>i\<close> below \<open>W * H * A\<close>, \<^verbatim>\<open>getCoords\<close>
  returns floats that convert to coordinates within the extents, and \<^verbatim>\<open>getIndex\<close>
  maps these back to \<open>i\<close>; and for every \<open>(x, y, a)\<close> within the extents,
  \<^verbatim>\<open>getIndex\<close> is \<open>(y * W + x) * A + a\<close> without wrap-around, with the heading
  fastest-varying, lies below \<open>W * H * A\<close>, and \<^verbatim>\<open>getCoords\<close> maps it to the floats
  of \<open>x\<close>, \<open>y\<close> and \<open>a\<close>, which convert back to \<open>x\<close>, \<open>y\<close> and \<open>a\<close>.
\<close>

theorem getIndex_getCoords_roundtrip:
  fixes W H A i x y a :: uint
  assumes mt: "size_x mt = W" "num_angle_quantization mt = A"
    and exact: "unat W \<le> 2 ^ 24" "unat H \<le> 2 ^ 24" "unat A \<le> 2 ^ 24"
    and AWfits: "unat A * unat W < 2 ^ 32"
    and fits: "unat W * unat H * unat A \<le> 2 ^ 32"
  shows "(unat i < unat W * unat H * unat A \<longrightarrow>
           (\<exists>c x' y' a'. getCoords i W A = Inr c
              \<and> float_to_uint (coord_x c) = Inr x'
              \<and> float_to_uint (coord_y c) = Inr y'
              \<and> float_to_uint (coord_theta c) = Inr a'
              \<and> getIndex NodeHybrid_getIndex mt x' y' a' = i
              \<and> unat x' < unat W \<and> unat y' < unat H \<and> unat a' < unat A))
       \<and> (unat x < unat W \<and> unat y < unat H \<and> unat a < unat A \<longrightarrow>
            unat (getIndex NodeHybrid_getIndex mt x y a)
              = (unat y * unat W + unat x) * unat A + unat a
          \<and> unat (getIndex NodeHybrid_getIndex mt x y a) < unat W * unat H * unat A
          \<and> getCoords (getIndex NodeHybrid_getIndex mt x y a) W A
              = Inr \<lparr>coord_x = uint_to_float x, coord_y = uint_to_float y,
                     coord_theta = uint_to_float a\<rparr>
          \<and> float_to_uint (uint_to_float x) = Inr x
          \<and> float_to_uint (uint_to_float y) = Inr y
          \<and> float_to_uint (uint_to_float a) = Inr a)"
proof (intro conjI impI)
  assume i: "unat i < unat W * unat H * unat A"
  then have pos: "0 < unat W" "0 < unat H" "0 < unat A"
    by (auto intro: Nat.gr0I)
  have AWpos: "0 < unat A * unat W" using pos by simp
  have AW: "unat (A * W) = unat A * unat W" using AWfits by (rule unat_prod_fits)
  let ?x = "(i div A) mod W" and ?y = "i div (A * W)" and ?a = "i mod A"
  let ?c = "\<lparr>coord_x = uint_to_float ?x, coord_y = uint_to_float ?y,
             coord_theta = uint_to_float ?a\<rparr>"
  have c: "getCoords i W A = Inr ?c" using AWpos AWfits by (rule getCoords_of_index(1))
  have rt: "getIndex NodeHybrid_getIndex mt ?x ?y ?a = i"
    using getCoords_of_index(2) [OF AWpos AWfits, of i]
    by (simp add: getIndex_def NodeHybrid_getIndex_def mt)
  have bx: "unat ?x < unat W" using pos(1) by (simp add: unat_mod)
  have "unat i < unat H * (unat A * unat W)" using i by (simp add: ac_simps)
  then have "unat i div (unat A * unat W) < unat H"
    using AWpos by (simp add: less_mult_imp_div_less)
  then have by': "unat ?y < unat H" by (simp add: unat_div AW)
  have ba: "unat ?a < unat A" using pos(3) by (simp add: unat_mod)
  have fx: "float_to_uint (coord_x ?c) = Inr ?x"
    using exact_below [OF bx exact(1)] by simp
  have fy: "float_to_uint (coord_y ?c) = Inr ?y"
    using exact_below [OF by' exact(2)] by simp
  have fa: "float_to_uint (coord_theta ?c) = Inr ?a"
    using exact_below [OF ba exact(3)] by simp
  show "\<exists>c x' y' a'. getCoords i W A = Inr c
              \<and> float_to_uint (coord_x c) = Inr x'
              \<and> float_to_uint (coord_y c) = Inr y'
              \<and> float_to_uint (coord_theta c) = Inr a'
              \<and> getIndex NodeHybrid_getIndex mt x' y' a' = i
              \<and> unat x' < unat W \<and> unat y' < unat H \<and> unat a' < unat A"
    using c fx fy fa rt bx by' ba by blast
next
  assume b: "unat x < unat W \<and> unat y < unat H \<and> unat a < unat A"
  then have bx: "unat x < unat W" and by': "unat y < unat H" and ba: "unat a < unat A"
    by simp_all
  then have lt: "(unat y * unat W + unat x) * unat A + unat a < unat W * unat H * unat A"
    by (rule cell_index_bound)
  then have small: "(unat y * unat W + unat x) * unat A + unat a < 2 ^ 32"
    using fits by simp
  have idx: "getIndex NodeHybrid_getIndex mt x y a = (y * W + x) * A + a"
    by (simp add: getIndex_def NodeHybrid_getIndex_def mt)
  show u: "unat (getIndex NodeHybrid_getIndex mt x y a)
      = (unat y * unat W + unat x) * unat A + unat a"
    unfolding idx using small by (rule unat_index)
  show "unat (getIndex NodeHybrid_getIndex mt x y a) < unat W * unat H * unat A"
    using lt by (simp only: u)
  have pos: "0 < unat A * unat W" using b by auto
  have AW: "unat (A * W) = unat A * unat W" using AWfits by (rule unat_prod_fits)
  let ?i = "getIndex NodeHybrid_getIndex mt x y a"
  have "(?i div A) mod W = x"
    by (rule word_unat_eq_iff [THEN iffD2])
       (simp only: unat_mod unat_div u index_decompose(1) [OF bx ba])
  moreover have "?i div (A * W) = y"
    by (rule word_unat_eq_iff [THEN iffD2])
       (simp only: unat_div u AW index_decompose(2) [OF bx ba])
  moreover have "?i mod A = a"
    by (rule word_unat_eq_iff [THEN iffD2])
       (simp only: unat_mod u index_decompose(3) [OF bx ba])
  ultimately show "getCoords ?i W A
      = Inr \<lparr>coord_x = uint_to_float x, coord_y = uint_to_float y,
             coord_theta = uint_to_float a\<rparr>"
    using getCoords_of_index(1) [OF pos AWfits, of ?i] by simp
  show "float_to_uint (uint_to_float x) = Inr x" using bx exact(1) by (rule exact_below)
  show "float_to_uint (uint_to_float y) = Inr y" using by' exact(2) by (rule exact_below)
  show "float_to_uint (uint_to_float a) = Inr a" using ba exact(3) by (rule exact_below)
qed

text \<open>
  The theorem at a grid of width 3, height 2 and 4 angle bins. The floats are 1.0,
  2.0 and 3.0.
\<close>

theorem getIndex_getCoords_roundtrip_witness:
  "size_x (sized_table 3 4) = 3 \<and> num_angle_quantization (sized_table 3 4) = 4
   \<and> unat (3::uint) \<le> 2 ^ 24 \<and> unat (2::uint) \<le> 2 ^ 24 \<and> unat (4::uint) \<le> 2 ^ 24
   \<and> unat (4::uint) * unat (3::uint) < 2 ^ 32
   \<and> unat (3::uint) * unat (2::uint) * unat (4::uint) \<le> 2 ^ 32
   \<and> unat (17::uint) < unat (3::uint) * unat (2::uint) * unat (4::uint)
   \<and> getCoords 17 3 4
       = Inr \<lparr>coord_x = Float32 0x3F800000, coord_y = Float32 0x3F800000,
              coord_theta = Float32 0x3F800000\<rparr>
   \<and> float_to_uint (Float32 0x3F800000) = Inr 1
   \<and> getIndex NodeHybrid_getIndex (sized_table 3 4) 1 1 1 = 17
   \<and> unat (2::uint) < unat (3::uint) \<and> unat (1::uint) < unat (2::uint)
   \<and> unat (3::uint) < unat (4::uint)
   \<and> getIndex NodeHybrid_getIndex (sized_table 3 4) 2 1 3 = 23
   \<and> getCoords 23 3 4
       = Inr \<lparr>coord_x = Float32 0x40000000, coord_y = Float32 0x3F800000,
              coord_theta = Float32 0x40400000\<rparr>
   \<and> float_to_uint (Float32 0x40000000) = Inr 2
   \<and> float_to_uint (Float32 0x40400000) = Inr 3"
  using getIndex_getCoords_roundtrip [of "sized_table 3 4" 3 4 2 17 2 1 3]
  by (simp add: sized_table_def getCoords_def getIndex_def NodeHybrid_getIndex_def
        uint_to_float_def binary32_of_int_def bit_length.simps float_to_uint_def Let_def)

text \<open>
  Claim C1 as stated fails in two ways. On the grid of width 1, height \<open>2 ^ 25\<close>
  and 1 angle bin, the index \<open>2 ^ 24 + 1\<close> is valid, \<^verbatim>\<open>getCoords\<close> returns for y
  the float \<open>2 ^ 24\<close> (bit pattern 4B800000), the nearest to \<open>2 ^ 24 + 1\<close>, and
  \<^verbatim>\<open>getIndex\<close> maps the coordinates to \<open>2 ^ 24\<close>. On the grid of width 65536,
  height 1 and 65536 angle bins, of \<open>2 ^ 32\<close> cells, the product of bin count and
  width wraps around to 0 and \<^verbatim>\<open>getCoords\<close> divides by it at the index 0.
\<close>

theorem getIndex_getCoords_counterexample:
  "unat (16777217::uint) < unat (1::uint) * unat (33554432::uint) * unat (1::uint)
   \<and> getCoords 16777217 1 1
       = Inr \<lparr>coord_x = Float32 0, coord_y = Float32 0x4B800000, coord_theta = Float32 0\<rparr>
   \<and> float_to_uint (Float32 0) = Inr 0
   \<and> float_to_uint (Float32 0x4B800000) = Inr 16777216
   \<and> getIndex NodeHybrid_getIndex (sized_table 1 1) 0 16777216 0 = 16777216
   \<and> (16777216::uint) \<noteq> 16777217
   \<and> unat (0::uint) < unat (65536::uint) * unat (1::uint) * unat (65536::uint)
   \<and> getCoords 0 65536 65536 = Inl DivisionByZero"
  by (simp add: sized_table_def getCoords_def getIndex_def NodeHybrid_getIndex_def
        uint_to_float_def binary32_of_int_def bit_length.simps float_to_uint_def Let_def)

text \<open>
  Claim C10, as amended. For every index, and every width and bin count whose
  product in \<^verbatim>\<open>unsigned int\<close> arithmetic is not zero (both are positive then),
  \<^verbatim>\<open>getCoords\<close> returns the floats of \<open>x = (index / bins) % width\<close>, of
  \<open>y = index / (bins * width)\<close> and of \<open>theta = index % bins\<close>, where \<open>x\<close> is below
  the width and \<open>theta\<close> below the bin count. Where the width is at most \<open>2 ^ 24\<close>
  the returned x is exactly \<open>x\<close>, where the bin count is at most \<open>2 ^ 24\<close> the
  returned theta is exactly \<open>theta\<close>, and where \<open>y\<close> is below \<open>2 ^ 24\<close> the returned
  y is exactly \<open>y\<close>. The index is not checked: where the product does not wrap around
  and the index is at least \<open>width * height * bins\<close>, \<open>y\<close> is at least the height.
\<close>

theorem getCoords_defined:
  fixes index width angle_quantization height :: uint
  assumes nz: "angle_quantization * width \<noteq> 0"
  shows "\<exists>c. getCoords index width angle_quantization = Inr c
           \<and> coord_x c = uint_to_float ((index div angle_quantization) mod width)
           \<and> (index div angle_quantization) mod width < width
           \<and> coord_y c = uint_to_float (index div (angle_quantization * width))
           \<and> coord_theta c = uint_to_float (index mod angle_quantization)
           \<and> index mod angle_quantization < angle_quantization
           \<and> (unat width \<le> 2 ^ 24 \<longrightarrow>
                float_to_uint (coord_x c) = Inr ((index div angle_quantization) mod width))
           \<and> (unat angle_quantization \<le> 2 ^ 24 \<longrightarrow>
                float_to_uint (coord_theta c) = Inr (index mod angle_quantization))
           \<and> (unat (index div (angle_quantization * width)) < 2 ^ 24 \<longrightarrow>
                float_to_uint (coord_y c) = Inr (index div (angle_quantization * width)))
           \<and> (unat angle_quantization * unat width < 2 ^ 32
               \<and> unat width * unat height * unat angle_quantization \<le> unat index
               \<longrightarrow> height \<le> index div (angle_quantization * width))"
proof -
  have A: "angle_quantization \<noteq> 0" and W: "width \<noteq> 0" using nz by auto
  let ?x = "(index div angle_quantization) mod width"
  let ?y = "index div (angle_quantization * width)"
  let ?a = "index mod angle_quantization"
  let ?c = "\<lparr>coord_x = uint_to_float ?x, coord_y = uint_to_float ?y,
             coord_theta = uint_to_float ?a\<rparr>"
  have c: "getCoords index width angle_quantization = Inr ?c"
    using A W nz by (simp add: getCoords_def)
  have t: "?a < angle_quantization"
    using A by (simp add: word_mod_less_divisor word_neq_0_conv)
  have x: "?x < width"
    using W by (simp add: word_mod_less_divisor word_neq_0_conv)
  have fx: "float_to_uint (coord_x ?c) = Inr ?x" if "unat width \<le> 2 ^ 24"
    using exact_below [OF x [unfolded word_less_nat_alt] that] by simp
  have fa: "float_to_uint (coord_theta ?c) = Inr ?a" if "unat angle_quantization \<le> 2 ^ 24"
    using exact_below [OF t [unfolded word_less_nat_alt] that] by simp
  have fy: "float_to_uint (coord_y ?c) = Inr ?y" if "unat ?y < 2 ^ 24"
    using float_to_uint_exact [OF that] by simp
  have y: "height \<le> ?y"
    if fits: "unat angle_quantization * unat width < 2 ^ 32"
      and big: "unat width * unat height * unat angle_quantization \<le> unat index"
  proof -
    have AW: "unat (angle_quantization * width) = unat angle_quantization * unat width"
      using fits by (rule unat_prod_fits)
    have pos: "0 < unat angle_quantization * unat width"
      using nz AW by (simp flip: unat_gt_0)
    have "unat height * (unat angle_quantization * unat width) \<le> unat index"
      using big by (simp add: ac_simps)
    then have "unat height \<le> unat index div (unat angle_quantization * unat width)"
      using pos by (simp add: less_eq_div_iff_mult_less_eq)
    then show ?thesis by (simp add: word_le_nat_alt unat_div AW)
  qed
  show ?thesis
  proof (intro exI [of _ ?c] conjI impI)
    show "getCoords index width angle_quantization = Inr ?c" by (rule c)
    show "coord_x ?c = uint_to_float ?x" by simp
    show "?x < width" by (rule x)
    show "coord_y ?c = uint_to_float ?y" by simp
    show "coord_theta ?c = uint_to_float ?a" by simp
    show "?a < angle_quantization" by (rule t)
    show "float_to_uint (coord_x ?c) = Inr ?x" if "unat width \<le> 2 ^ 24"
      using that by (rule fx)
    show "float_to_uint (coord_theta ?c) = Inr ?a" if "unat angle_quantization \<le> 2 ^ 24"
      using that by (rule fa)
    show "float_to_uint (coord_y ?c) = Inr ?y" if "unat ?y < 2 ^ 24"
      using that by (rule fy)
    show "height \<le> ?y"
      if "unat angle_quantization * unat width < 2 ^ 32
          \<and> unat width * unat height * unat angle_quantization \<le> unat index"
      using that y by blast
  qed
qed

text \<open>
  The theorem at width 3, 4 bins, height 2 and the index 100, beyond the grid: the
  floats are 1.0, 8.0 and 0.0.
\<close>

theorem getCoords_defined_witness:
  "(4::uint) * 3 \<noteq> 0
   \<and> unat (3::uint) \<le> 2 ^ 24 \<and> unat (4::uint) \<le> 2 ^ 24
   \<and> unat ((100::uint) div (4 * 3)) < 2 ^ 24
   \<and> unat (4::uint) * unat (3::uint) < 2 ^ 32
   \<and> unat (3::uint) * unat (2::uint) * unat (4::uint) \<le> unat (100::uint)
   \<and> getCoords 100 3 4
       = Inr \<lparr>coord_x = Float32 0x3F800000, coord_y = Float32 0x41000000,
              coord_theta = Float32 0\<rparr>
   \<and> float_to_uint (Float32 0x3F800000) = Inr 1 \<and> (1::uint) < 3
   \<and> float_to_uint (Float32 0x41000000) = Inr 8 \<and> (2::uint) \<le> 8
   \<and> float_to_uint (Float32 0) = Inr 0 \<and> (0::uint) < 4"
  using getCoords_defined [of 4 3 100 2]
  by (simp add: getCoords_def uint_to_float_def binary32_of_int_def bit_length.simps
        float_to_uint_def Let_def)

text \<open>
  Claim C10 as stated fails in two ways. For the positive width 65536 and bin count
  65536 the product wraps around to 0 and \<^verbatim>\<open>getCoords\<close> divides by it. For the
  width 1 and the bin count \<open>2 ^ 25 + 4\<close>, at the index \<open>2 ^ 25 + 3\<close>, the theta
  computed is \<open>2 ^ 25 + 3\<close>, and the float returned for it is the nearest one,
  \<open>2 ^ 25 + 4\<close> (bit pattern 4C000001): the returned theta equals the bin count.
\<close>

theorem getCoords_counterexample:
  "(0::uint) < 65536 \<and> getCoords 0 65536 65536 = Inl DivisionByZero
   \<and> (0::uint) < 1 \<and> (0::uint) < 33554436
   \<and> getCoords 33554435 1 33554436
       = Inr \<lparr>coord_x = Float32 0, coord_y = Float32 0, coord_theta = Float32 0x4C000001\<rparr>
   \<and> float_to_uint (Float32 0x4C000001) = Inr 33554436
   \<and> uint_to_float 33554436 = Float32 0x4C000001"
  by (simp add: getCoords_def uint_to_float_def binary32_of_int_def bit_length.simps
        float_to_uint_def Let_def)

section \<open>The node within one search episode\<close>

lemma call_keeps_visited: "was_visited n \<Longrightarrow> was_visited (call c n)"
  by (cases c) (simp_all add: queued_def visited_def)

lemma calls_keep_visited: "was_visited n \<Longrightarrow> was_visited (calls cs n)"
proof (induction cs arbitrary: n)
  case Nil
  then show ?case by simp
next
  case (Cons c cs)
  from Cons.prems have "was_visited (call c n)" by (rule call_keeps_visited)
  then show ?case by (simp add: Cons.IH)
qed

lemma call_rank: "phase_rank (node_phase n) \<le> phase_rank (node_phase (call c n))"
  by (cases c) (simp_all add: node_phase_def queued_def visited_def)

lemma calls_rank: "phase_rank (node_phase n) \<le> phase_rank (node_phase (calls cs n))"
proof (induction cs arbitrary: n)
  case Nil
  show ?case by simp
next
  case (Cons c cs)
  have "phase_rank (node_phase n) \<le> phase_rank (node_phase (call c n))" by (rule call_rank)
  also have "\<dots> \<le> phase_rank (node_phase (calls cs (call c n)))" by (rule Cons.IH)
  finally show ?case by simp
qed

text \<open>
  Claim C9. In every node state \<^verbatim>\<open>visited()\<close> sets the visited flag and clears the
  queued flag, so right after it the node is visited and not queued. From the
  unvisited state (both flags false, as after \<^verbatim>\<open>reset\<close>), \<^verbatim>\<open>queued()\<close> leads to
  the queued phase and \<^verbatim>\<open>visited()\<close> from there to the visited phase. Over any
  sequence of calls of \<^verbatim>\<open>queued()\<close> and \<^verbatim>\<open>visited()\<close> the phase never moves
  backwards in the order unvisited, queued, visited, and a visited node stays
  visited: the phase is terminal until the next \<^verbatim>\<open>reset\<close>.
\<close>

theorem visited_clears_queued_and_is_terminal:
  "was_visited (visited n) \<and> \<not> is_queued (visited n)
   \<and> node_phase (visited n) = Visited
   \<and> (\<not> was_visited u \<and> \<not> is_queued u \<longrightarrow>
        node_phase u = Unvisited \<and> node_phase (queued u) = Queued
        \<and> node_phase (visited (queued u)) = Visited)
   \<and> phase_rank (node_phase m) \<le> phase_rank (node_phase (calls cs m))
   \<and> (was_visited v \<longrightarrow> was_visited (calls cs v) \<and> node_phase (calls cs v) = Visited)"
proof (intro conjI impI)
  show "was_visited (visited n)" "\<not> is_queued (visited n)" "node_phase (visited n) = Visited"
    by (simp_all add: visited_def node_phase_def)
  show "phase_rank (node_phase m) \<le> phase_rank (node_phase (calls cs m))"
    by (rule calls_rank)
next
  assume u: "\<not> was_visited u \<and> \<not> is_queued u"
  then show "node_phase u = Unvisited" "node_phase (queued u) = Queued"
    "node_phase (visited (queued u)) = Visited"
    by (simp_all add: node_phase_def queued_def visited_def)
next
  assume "was_visited v"
  then show "was_visited (calls cs v)" by (rule calls_keep_visited)
  then show "node_phase (calls cs v) = Visited" by (simp add: node_phase_def)
qed

text \<open>
  The theorem at a fresh node that is queued, visited, and then called three more
  times.
\<close>

theorem visited_clears_queued_and_is_terminal_witness:
  "\<not> was_visited (fresh_node 5) \<and> \<not> is_queued (fresh_node 5)
   \<and> node_phase (fresh_node 5) = Unvisited
   \<and> node_phase (queued (fresh_node 5)) = Queued
   \<and> node_phase (visited (queued (fresh_node 5))) = Visited
   \<and> was_visited (visited (queued (fresh_node 5)))
   \<and> was_visited (calls [CallQueued, CallVisited, CallQueued] (visited (queued (fresh_node 5))))
   \<and> node_phase (calls [CallQueued, CallVisited, CallQueued] (visited (queued (fresh_node 5))))
       = Visited"
  using visited_clears_queued_and_is_terminal
    [of "queued (fresh_node 5)" "fresh_node 5" "fresh_node 5"
        "[CallQueued, CallVisited, CallQueued]" "visited (queued (fresh_node 5))"]
  by (simp add: fresh_node_def queued_def visited_def node_phase_def)

section \<open>Reset of a node\<close>

text \<open>
  Claim C4. For every node, whatever its state, after \<^verbatim>\<open>reset\<close> the accumulated
  cost and the motion-primitive index hold the cleared values, the visited and the
  queued flag are false and the parent is null; the node is in the unvisited phase.
\<close>

theorem reset_clears:
  "accumulated_cost (reset cleared_cost cleared_primitive n) = cleared_cost
   \<and> \<not> was_visited (reset cleared_cost cleared_primitive n)
   \<and> \<not> is_queued (reset cleared_cost cleared_primitive n)
   \<and> parent (reset cleared_cost cleared_primitive n) = None
   \<and> motion_primitive_index (reset cleared_cost cleared_primitive n) = cleared_primitive
   \<and> node_phase (reset cleared_cost cleared_primitive n) = Unvisited"
  by (simp add: reset_def node_phase_def)

section \<open>The static helpers and NodeHybrid\<close>

text \<open>
  Claim C8. Whatever the members of \<^verbatim>\<open>NodeHybrid\<close> compute, the static helpers of
  \<^verbatim>\<open>NodeLattice\<close> compute the same: \<^verbatim>\<open>getIndex\<close> is \<^verbatim>\<open>NodeHybrid::getIndex\<close> at
  the width and bin count of the lattice motion table, and
  \<^verbatim>\<open>precomputeDistanceHeuristic\<close>, \<^verbatim>\<open>resetObstacleHeuristic\<close> and
  \<^verbatim>\<open>getObstacleHeuristic\<close> are the members of \<^verbatim>\<open>NodeHybrid\<close> of the same name, as
  functions of all arguments and of the static heuristic state, which they leave
  as the members of \<^verbatim>\<open>NodeHybrid\<close> leave it.
\<close>

theorem lattice_helpers_are_hybrid_helpers:
  "getIndex hybrid_getIndex motion_table x y angle
     = hybrid_getIndex x y angle (size_x motion_table) (num_angle_quantization motion_table)
   \<and> precomputeDistanceHeuristic hybrid_precompute = hybrid_precompute
   \<and> resetObstacleHeuristic hybrid_reset = hybrid_reset
   \<and> getObstacleHeuristic hybrid_get = hybrid_get"
  by (simp add: getIndex_def fun_eq_iff precomputeDistanceHeuristic_def
        resetObstacleHeuristic_def getObstacleHeuristic_def)

section \<open>Expansion and validity\<close>

lemma map_filter_member:
  "m \<in> set (List.map_filter f xs) \<Longrightarrow> \<exists>x \<in> set xs. f x = Some m"
  by (induction xs) (auto split: option.splits)

lemma expand_map_filter:
  "expand E vc cc tu n ims neighbors = neighbors @ List.map_filter (candidate E vc cc tu n) ims"
  by (induction ims arbitrary: neighbors) (simp_all split: option.split)

lemma isNodeValid_pose:
  "fst (isNodeValid tu cc m)
     = isValid cc (coord_x (pose m)) (coord_y (pose m)) (coord_theta (pose m)) tu"
  by (simp add: isNodeValid_def Let_def)

lemma candidate_Some:
  assumes "candidate E vc cc tu n im = Some m"
  shows "pose m = successor E n (snd im)"
    and "isValid cc (coord_x (pose m)) (coord_y (pose m)) (coord_theta (pose m)) tu"
    and "motion_primitive_index m = fst im"
    and "in_bounds E (pose m)"
    and "vc (cell_index E (pose m)) \<noteq> None"
  using assms
  by (auto simp: candidate_def isNodeValid_def setPose_def setMotionPrimitiveIndex_def Let_def
           split: if_splits option.splits)

lemma candidate_None:
  assumes "vc (cell_index E (successor E n (snd im))) = None
           \<or> \<not> fst (isNodeValid tu cc (setPose (successor E n (snd im)) nb))"
  shows "candidate E vc cc tu n im = None"
  using assms
  by (auto simp: candidate_def isNodeValid_def setPose_def Let_def split: option.splits)

text \<open>
  Claim C2. \<^verbatim>\<open>getNeighbors\<close> only appends to the output vector. Every neighbor it
  appends satisfies \<^verbatim>\<open>isNodeValid\<close> for the same collision checker and flag, lies
  within the bounds and was accepted by the validity checker. A candidate that the
  validity checker rejects or whose pose fails \<^verbatim>\<open>isNodeValid\<close> yields no neighbor,
  and nothing else happens for it: the appended list is exactly the list of the
  surviving candidates, in the order of the primitives.
\<close>

theorem getNeighbors_only_valid:
  "getNeighbors E validity_checker collision_checker traverse_unknown n neighbors
     = neighbors @ getNeighbors E validity_checker collision_checker traverse_unknown n []
   \<and> (\<forall>m \<in> set (getNeighbors E validity_checker collision_checker traverse_unknown n []).
         fst (isNodeValid traverse_unknown collision_checker m)
         \<and> in_bounds E (pose m) \<and> validity_checker (cell_index E (pose m)) \<noteq> None)
   \<and> (validity_checker (cell_index E (successor E n (snd im))) = None
        \<or> \<not> fst (isNodeValid traverse_unknown collision_checker
                   (setPose (successor E n (snd im)) nb))
       \<longrightarrow> candidate E validity_checker collision_checker traverse_unknown n im = None)
   \<and> getNeighbors E validity_checker collision_checker traverse_unknown n []
     = List.map_filter (candidate E validity_checker collision_checker traverse_unknown n)
         (zip (map of_nat [0 ..< length (getProjections E n)]) (getProjections E n))"
proof (intro conjI ballI impI)
  show "getNeighbors E validity_checker collision_checker traverse_unknown n neighbors
     = neighbors @ getNeighbors E validity_checker collision_checker traverse_unknown n []"
    by (simp add: getNeighbors_def Let_def expand_map_filter)
  show "getNeighbors E validity_checker collision_checker traverse_unknown n []
     = List.map_filter (candidate E validity_checker collision_checker traverse_unknown n)
         (zip (map of_nat [0 ..< length (getProjections E n)]) (getProjections E n))"
    by (simp add: getNeighbors_def Let_def expand_map_filter)
next
  fix m
  assume "m \<in> set (getNeighbors E validity_checker collision_checker traverse_unknown n [])"
  then have "m \<in> set (List.map_filter
      (candidate E validity_checker collision_checker traverse_unknown n)
      (zip (map of_nat [0 ..< length (getProjections E n)]) (getProjections E n)))"
    by (simp add: getNeighbors_def Let_def expand_map_filter)
  then obtain im where
    c: "candidate E validity_checker collision_checker traverse_unknown n im = Some m"
    by (blast dest: map_filter_member)
  show "fst (isNodeValid traverse_unknown collision_checker m)"
    using candidate_Some(2) [OF c] by (simp add: isNodeValid_pose)
  show "in_bounds E (pose m)" by (rule candidate_Some(4) [OF c])
  show "validity_checker (cell_index E (pose m)) \<noteq> None" by (rule candidate_Some(5) [OF c])
next
  assume "validity_checker (cell_index E (successor E n (snd im))) = None
        \<or> \<not> fst (isNodeValid traverse_unknown collision_checker
                   (setPose (successor E n (snd im)) nb))"
  then show "candidate E validity_checker collision_checker traverse_unknown n im = None"
    by (rule candidate_None)
qed

text \<open>
  The theorem at the example expansion: the first pose yields a valid neighbor, the
  second is in collision and yields none.
\<close>

theorem getNeighbors_only_valid_witness:
  "getNeighbors example_expansion example_validity example_checker False (fresh_node 0) []
     = [\<lparr>parent = None,
         pose = \<lparr>coord_x = Float32 1, coord_y = Float32 2, coord_theta = Float32 0\<rparr>,
         cell_cost = Float32 7, accumulated_cost = Float32 0, node_index = 1,
         was_visited = False, is_queued = False, motion_primitive_index = 0\<rparr>]
   \<and> fst (isNodeValid False example_checker
        \<lparr>parent = None,
         pose = \<lparr>coord_x = Float32 1, coord_y = Float32 2, coord_theta = Float32 0\<rparr>,
         cell_cost = Float32 7, accumulated_cost = Float32 0, node_index = 1,
         was_visited = False, is_queued = False, motion_primitive_index = 0\<rparr>)
   \<and> \<not> fst (isNodeValid False example_checker
          (setPose (successor example_expansion (fresh_node 0) (example_poses ! 1))
             (fresh_node 3)))
   \<and> candidate example_expansion example_validity example_checker False (fresh_node 0)
        (1, example_poses ! 1) = None"
  using getNeighbors_only_valid
    [of example_expansion example_validity example_checker False "fresh_node 0" "[]"
        "(1, example_poses ! 1)" "fresh_node 3"]
  by (simp add: getNeighbors_def candidate_def isNodeValid_def setPose_def
        setMotionPrimitiveIndex_def example_expansion_def example_validity_def
        example_checker_def example_poses_def fresh_node_def Let_def)

section \<open>Loading the motion table: cache and failure\<close>

text \<open>
  Claim C5. If \<^verbatim>\<open>initMotionModel\<close> fails, the error is a ParseError, reading the
  configured file has failed, and the table after the call is the table before it,
  in every field. Whenever the call is not a cache hit and the file is missing or
  invalid, the call fails that way.
\<close>

theorem initMotionModel_all_or_nothing:
  "(fst (initMotionModel L size_x_in search_info t) = Some e \<longrightarrow>
      e = ParseError
      \<and> read_lattice_file L (lattice_filepath search_info) = Inl ParseError
      \<and> snd (initMotionModel L size_x_in search_info t) = t)
   \<and> (read_lattice_file L (lattice_filepath search_info) = Inl ParseError
       \<and> \<not> (lattice_filepath search_info = current_lattice_filepath t \<and> size_x_in = size_x t)
      \<longrightarrow> initMotionModel L size_x_in search_info t = (Some ParseError, t))"
proof (intro conjI impI)
  assume f: "fst (initMotionModel L size_x_in search_info t) = Some e"
  show "e = ParseError" by (cases e) simp
  from f show "read_lattice_file L (lattice_filepath search_info) = Inl ParseError"
    by (cases "read_lattice_file L (lattice_filepath search_info)")
       (auto simp: initMotionModel_def split: if_splits intro: error.exhaust)
  from f show "snd (initMotionModel L size_x_in search_info t) = t"
    by (auto simp: initMotionModel_def split: if_splits sum.splits)
next
  assume "read_lattice_file L (lattice_filepath search_info) = Inl ParseError
       \<and> \<not> (lattice_filepath search_info = current_lattice_filepath t \<and> size_x_in = size_x t)"
  then show "initMotionModel L size_x_in search_info t = (Some ParseError, t)"
    by (auto simp: initMotionModel_def)
qed

text \<open>
  The theorem at a path with no file.
\<close>

theorem initMotionModel_all_or_nothing_witness:
  "initMotionModel example_loader 50 (example_info ''nofile.json'') (sized_table 50 16)
     = (Some ParseError, sized_table 50 16)
   \<and> read_lattice_file example_loader (lattice_filepath (example_info ''nofile.json''))
     = Inl ParseError
   \<and> lattice_filepath (example_info ''nofile.json'')
     \<noteq> current_lattice_filepath (sized_table 50 16)"
  using initMotionModel_all_or_nothing
    [of example_loader 50 "example_info ''nofile.json''" "sized_table 50 16" ParseError]
  by (simp add: initMotionModel_def example_loader_def example_info_def sized_table_def)

text \<open>
  Claim C6. A call with the path and the grid size of the currently loaded state
  succeeds and leaves the whole table unchanged. A call with a different path whose
  file loads succeeds and rebuilds projections, trig cache and state-space handle
  from the new file, records the new path and the grid size, and a second call
  with the same arguments is then such a no-op.
\<close>

theorem initMotionModel_cache_hit_and_rebuild:
  "(lattice_filepath search_info = current_lattice_filepath t \<and> size_x_in = size_x t \<longrightarrow>
      initMotionModel L size_x_in search_info t = (None, t))
   \<and> (lattice_filepath info' \<noteq> current_lattice_filepath t'
       \<and> read_lattice_file L (lattice_filepath info') = Inr f \<longrightarrow>
      fst (initMotionModel L size' info' t') = None
      \<and> projections (snd (initMotionModel L size' info' t')) = make_projections L f
      \<and> trig_values (snd (initMotionModel L size' info' t')) = make_trig_values L f
      \<and> state_space (snd (initMotionModel L size' info' t'))
          = Some (make_state_space L (file_min_turning_radius f))
      \<and> current_lattice_filepath (snd (initMotionModel L size' info' t'))
          = lattice_filepath info'
      \<and> size_x (snd (initMotionModel L size' info' t')) = size'
      \<and> initMotionModel L size' info' (snd (initMotionModel L size' info' t'))
          = (None, snd (initMotionModel L size' info' t')))"
  by (simp add: initMotionModel_def)

text \<open>
  The theorem at the example loader: a hit on the current state, and a load of the
  example file.
\<close>

theorem initMotionModel_cache_hit_and_rebuild_witness:
  "lattice_filepath (example_info []) = current_lattice_filepath (sized_table 50 16)
   \<and> 50 = size_x (sized_table 50 16)
   \<and> initMotionModel example_loader 50 (example_info []) (sized_table 50 16)
     = (None, sized_table 50 16)
   \<and> lattice_filepath (example_info ''lattice.json'')
       \<noteq> current_lattice_filepath (sized_table 50 16)
   \<and> read_lattice_file example_loader (lattice_filepath (example_info ''lattice.json''))
       = Inr example_file
   \<and> projections (snd (initMotionModel example_loader 50 (example_info ''lattice.json'')
        (sized_table 50 16))) = example_poses
   \<and> state_space (snd (initMotionModel example_loader 50 (example_info ''lattice.json'')
        (sized_table 50 16))) = Some (StateSpace (Float32 8))
   \<and> initMotionModel example_loader 50 (example_info ''lattice.json'')
        (snd (initMotionModel example_loader 50 (example_info ''lattice.json'')
           (sized_table 50 16)))
       = (None, snd (initMotionModel example_loader 50 (example_info ''lattice.json'')
           (sized_table 50 16)))"
  using initMotionModel_cache_hit_and_rebuild
    [of "example_info []" "sized_table 50 16" 50 example_loader
        "example_info ''lattice.json''" "sized_table 50 16" example_file 50]
  by (simp add: initMotionModel_def example_loader_def example_info_def sized_table_def
        example_file_def)

end
